theory Spec2Isabelle
  imports Complex_Main
begin

section \<open>The craft weapon of src/Savegame/CraftWeapon.cpp\<close>

text \<open>
  A shallow embedding of the class \<^verbatim>\<open>OpenXcom::CraftWeapon\<close>: the ammunition count of one
  weapon slot of a craft, its rearming and disabled flags, the rearm step and the clip
  count.

  The C++ type \<^verbatim>\<open>int\<close> has 32 bits. Its values are carried by \<^typ>\<open>int\<close>, and every
  addition, subtraction and multiplication of the source is written with the wrap-around
  of two's complement: where the exact result is no value of \<^verbatim>\<open>int\<close>, the language leaves
  the behaviour undefined and the compiled code keeps the low 32 bits. Integer division
  in C++ truncates towards zero, unlike \<open>div\<close> of HOL, and is written out as \<open>c_div\<close>.
\<close>

subsection \<open>Arithmetic of the source language\<close>

definition int_range :: "int \<Rightarrow> bool" where
  \<comment> \<open>The values of a 32-bit \<^verbatim>\<open>int\<close>.\<close>
  "int_range x = (- (2 ^ 31) \<le> x \<and> x < 2 ^ 31)"

definition int32 :: "int \<Rightarrow> int" where
  \<comment> \<open>The value of \<^verbatim>\<open>int\<close> that has the low 32 bits of \<open>x\<close>.\<close>
  "int32 x = (x + 2 ^ 31) mod 2 ^ 32 - 2 ^ 31"

definition c_add :: "int \<Rightarrow> int \<Rightarrow> int" where
  \<comment> \<open>\<^verbatim>\<open>a + b\<close> on \<^verbatim>\<open>int\<close>.\<close>
  "c_add a b = int32 (a + b)"

definition c_sub :: "int \<Rightarrow> int \<Rightarrow> int" where
  \<comment> \<open>\<^verbatim>\<open>a - b\<close> on \<^verbatim>\<open>int\<close>.\<close>
  "c_sub a b = int32 (a - b)"

definition c_mul :: "int \<Rightarrow> int \<Rightarrow> int" where
  \<comment> \<open>\<^verbatim>\<open>a * b\<close> on \<^verbatim>\<open>int\<close>.\<close>
  "c_mul a b = int32 (a * b)"

definition c_div :: "int \<Rightarrow> int \<Rightarrow> int" where
  \<comment> \<open>\<^verbatim>\<open>a / b\<close> on \<^verbatim>\<open>int\<close>: the quotient with the fractional part discarded. The source
      divides only behind a test that the divisor is positive, where the quotient of a
      value of \<^verbatim>\<open>int\<close> is one.\<close>
  "c_div a b =
     (if (a < 0) = (b < 0) then \<bar>a\<bar> div \<bar>b\<bar> else - (\<bar>a\<bar> div \<bar>b\<bar>))"

subsection \<open>The rules a weapon points to\<close>

text \<open>
  \<^verbatim>\<open>RuleItem\<close> and \<^verbatim>\<open>RuleCraftWeapon\<close> are declared in \<^verbatim>\<open>../Mod\<close>, outside the file. The
  weapon only reads them through getters, so each getter the modelled functions call is a
  field here, under the getter's name. A null \<^verbatim>\<open>RuleItem*\<close> is \<open>None\<close>.
\<close>

record RuleItem =
  getClipSize :: int

record RuleCraftWeapon =
  getType :: string
  getAmmoMax :: int
  getRearmRate :: int
  useStatisticalBulletSaving :: bool
  getClipItem :: "RuleItem option"

subsection \<open>The weapon\<close>

record CraftWeapon =
  rules :: RuleCraftWeapon  \<comment> \<open>\<^verbatim>\<open>_rules\<close>, never written after construction\<close>
  ammo :: int               \<comment> \<open>\<^verbatim>\<open>_ammo\<close>\<close>
  rearming :: bool          \<comment> \<open>\<^verbatim>\<open>_rearming\<close>\<close>
  disabled :: bool          \<comment> \<open>\<^verbatim>\<open>_disabled\<close>\<close>

definition CraftWeapon_new :: "RuleCraftWeapon \<Rightarrow> int \<Rightarrow> CraftWeapon" where
  \<comment> \<open>The constructor \<^verbatim>\<open>CraftWeapon(rules, ammo)\<close>, line 37.\<close>
  "CraftWeapon_new r a = \<lparr>rules = r, ammo = a, rearming = False, disabled = False\<rparr>"

definition getRules :: "CraftWeapon \<Rightarrow> RuleCraftWeapon" where
  "getRules w = rules w"

definition getAmmo :: "CraftWeapon \<Rightarrow> int" where
  "getAmmo w = ammo w"

definition setAmmo :: "int \<Rightarrow> CraftWeapon \<Rightarrow> bool \<times> CraftWeapon" where
  \<comment> \<open>Lines 98 to 111: the returned pair is the \<^verbatim>\<open>bool\<close> result and the weapon after the call.\<close>
  "setAmmo a w =
     (let w1 = w\<lparr>ammo := a\<rparr> in
      if ammo w1 < 0 then (False, w1\<lparr>ammo := 0\<rparr>)
      else if ammo w1 > getAmmoMax (rules w1)
        then (True, w1\<lparr>ammo := getAmmoMax (rules w1)\<rparr>)
      else (True, w1))"

definition isRearming :: "CraftWeapon \<Rightarrow> bool" where
  \<comment> \<open>Lines 117 to 123, a \<^verbatim>\<open>const\<close> member: it has no weapon to return.\<close>
  "isRearming w = (if disabled w then False else rearming w)"

definition setRearming :: "bool \<Rightarrow> CraftWeapon \<Rightarrow> CraftWeapon" where
  "setRearming b w = w\<lparr>rearming := b\<rparr>"

definition isDisabled :: "CraftWeapon \<Rightarrow> bool" where
  "isDisabled w = disabled w"

definition setDisabled :: "bool \<Rightarrow> CraftWeapon \<Rightarrow> CraftWeapon" where
  "setDisabled b w = w\<lparr>disabled := b\<rparr>"

subsection \<open>The random number generator\<close>

text \<open>
  \<^verbatim>\<open>RNG::generate\<close> lives in \<^verbatim>\<open>../Engine/RNG.h\<close>, outside the file. Its state is global;
  here it is passed in and returned.
\<close>

record RNG =
  raw :: "nat \<Rightarrow> nat"   \<comment> \<open>the sequence the seed determines\<close>
  drawn :: nat          \<comment> \<open>how many of its elements have been consumed\<close>

definition generate :: "int \<Rightarrow> int \<Rightarrow> RNG \<Rightarrow> int \<times> RNG" where
  \<comment> \<open>Modelled from the spec: \<^verbatim>\<open>RNG::generate(min, max)\<close>, which is not in the file. The spec
      has one operation, a draw of an integer between two bounds, both included, from a
      globally ordered sequence of draws. Each call consumes one element of the sequence.\<close>
  "generate lo hi g =
     (lo + int (raw g (drawn g)) mod (hi - lo + 1), g\<lparr>drawn := Suc (drawn g)\<rparr>)"

subsection \<open>Rearming\<close>

definition rearm :: "int \<Rightarrow> int \<Rightarrow> CraftWeapon \<Rightarrow> RNG \<Rightarrow> int \<times> CraftWeapon \<times> RNG" where
  \<comment> \<open>Lines 159 to 188. The result is the number of clips used, the weapon and the
      generator after the call. The block of \<^verbatim>\<open>if (clipSize > 0)\<close> assigns \<^verbatim>\<open>ammoUsed\<close> and
      \<^verbatim>\<open>clipsSaved\<close> and may draw a number: its value is what it leaves of the three.\<close>
  "rearm available clipSize w g =
     (let ammoUsed = getRearmRate (rules w);
          clipsSaved = 0;
          (ammoUsed, clipsSaved, g1) =
            (if clipSize > 0 then
               (let needed =
                      c_div (min (getRearmRate (rules w))
                                 (c_sub (c_add (c_sub (getAmmoMax (rules w)) (ammo w)) clipSize)
                                        1))
                            clipSize;
                    ammoUsed =
                      c_mul (if needed > available then available else needed) clipSize
                in if clipSize > 1 \<and> useStatisticalBulletSaving (rules w) then
                     (let overusedAmmo =
                            c_sub (c_add (ammo w) ammoUsed) (getAmmoMax (rules w))
                      in if overusedAmmo > 0 then
                           (let (d, g1) = generate 0 (c_sub clipSize 1) g
                            in if d < overusedAmmo then (ammoUsed, 1, g1)
                               else (ammoUsed, clipsSaved, g1))
                         else (ammoUsed, clipsSaved, g))
                   else (ammoUsed, clipsSaved, g))
             else (ammoUsed, clipsSaved, g));
          (ok, w1) = setAmmo (c_add (ammo w) ammoUsed) w;
          w2 = w1\<lparr>rearming := ammo w1 < getAmmoMax (rules w1)\<rparr>
      in ((if clipSize \<le> 0 then 0 else c_sub (c_div ammoUsed clipSize) clipsSaved),
          w2, g1))"

subsection \<open>The locals of a rearm step\<close>

text \<open>
  The claims speak about the locals of \<^verbatim>\<open>rearm\<close>. Each of the next four definitions is
  the value of one of them, with the expression of the source that computes it; the
  lemma \<open>rearm_pieces\<close> below puts \<open>rearm\<close> together from them.
\<close>

definition rearm_needed :: "CraftWeapon \<Rightarrow> int \<Rightarrow> int" where
  \<comment> \<open>Line 166, the local \<^verbatim>\<open>needed\<close>; evaluated only when \<^verbatim>\<open>clipSize > 0\<close>.\<close>
  "rearm_needed w clipSize =
     c_div (min (getRearmRate (rules w))
                (c_sub (c_add (c_sub (getAmmoMax (rules w)) (ammo w)) clipSize) 1))
           clipSize"

definition rearm_ammoUsed :: "CraftWeapon \<Rightarrow> int \<Rightarrow> int \<Rightarrow> int" where
  \<comment> \<open>Lines 161 and 164 to 167: the local \<^verbatim>\<open>ammoUsed\<close> when line 183 reads it.\<close>
  "rearm_ammoUsed w available clipSize =
     (if clipSize > 0 then
        (let needed = rearm_needed w clipSize in
         c_mul (if needed > available then available else needed) clipSize)
      else getRearmRate (rules w))"

definition rearm_overusedAmmo :: "CraftWeapon \<Rightarrow> int \<Rightarrow> int \<Rightarrow> int" where
  \<comment> \<open>Line 172, the local \<^verbatim>\<open>overusedAmmo\<close>.\<close>
  "rearm_overusedAmmo w available clipSize =
     c_sub (c_add (ammo w) (rearm_ammoUsed w available clipSize)) (getAmmoMax (rules w))"

definition rearm_clipsSaved :: "CraftWeapon \<Rightarrow> int \<Rightarrow> int \<Rightarrow> RNG \<Rightarrow> int \<times> RNG" where
  \<comment> \<open>Lines 162, 164 and 169 to 180: the local \<^verbatim>\<open>clipsSaved\<close> when line 187 reads it, and
      the generator after the block.\<close>
  "rearm_clipsSaved w available clipSize g =
     (if clipSize > 0 then
        (if clipSize > 1 \<and> useStatisticalBulletSaving (rules w) then
           (let overusedAmmo = rearm_overusedAmmo w available clipSize in
            if overusedAmmo > 0 then
              (let (d, g') = generate 0 (c_sub clipSize 1) g in
               if d < overusedAmmo then (1, g') else (0, g'))
            else (0, g))
         else (0, g))
      else (0, g))"

subsection \<open>Clips loaded\<close>

definition floor_of_double_quotient :: "int \<Rightarrow> int \<Rightarrow> int option" where
  \<comment> \<open>\<^verbatim>\<open>(int)floor((double)a / b)\<close> for two values of \<^verbatim>\<open>int\<close>. Both convert to \<^verbatim>\<open>double\<close>
      exactly, and their rounded quotient lies strictly between the same two integers as
      the exact one (or is that integer), so the floor is the floor of the exact quotient:
      the lemma \<open>floor_of_double_quotient_rounded\<close> below. The conversion to \<^verbatim>\<open>int\<close> has
      no defined value, \<open>None\<close>, in two cases: with \<^verbatim>\<open>b = 0\<close> the quotient is an infinity
      or not a number; and the quotient of the least \<^verbatim>\<open>int\<close> by \<open>-1\<close> is \<open>2^31\<close>, the one
      floor of a quotient of two values of \<^verbatim>\<open>int\<close> that is not such a value (the lemma
      \<open>floor_of_double_quotient_range\<close> below).\<close>
  "floor_of_double_quotient a b =
     (if b = 0 \<or> (a = - (2 ^ 31) \<and> b = - 1) then None
      else Some \<lfloor>real_of_int a / real_of_int b\<rfloor>)"

definition getClipsLoaded :: "CraftWeapon \<Rightarrow> int option" where
  \<comment> \<open>Lines 215 to 226. The quotient by the rearm rate is computed first, as in the
      source, and dropped when the clip item applies. \<open>None\<close>: the value returned is one
      that no rule of the language defines.\<close>
  "getClipsLoaded w =
     (let retVal = floor_of_double_quotient (ammo w) (getRearmRate (rules w));
          clip = getClipItem (rules w)
      in case clip of
           None \<Rightarrow> retVal
         | Some c \<Rightarrow>
             if getClipSize c > 0 then floor_of_double_quotient (ammo w) (getClipSize c)
             else retVal)"

subsection \<open>Saved games\<close>

text \<open>
  \<^verbatim>\<open>YAML::YamlNodeReader\<close> and \<^verbatim>\<open>YAML::YamlNodeWriter\<close> are declared outside the file. A
  node that is a map is the list of its keys and values, in the order written.
\<close>

datatype YamlValue = YamlString string | YamlInt int | YamlBool bool

type_synonym YamlNode = "(string \<times> YamlValue) list"

definition setAsMap :: YamlNode where
  \<comment> \<open>Modelled from the spec: \<^verbatim>\<open>YamlNodeWriter::setAsMap\<close>, not in the file; the record
      starts with no key.\<close>
  "setAsMap = []"

definition yaml_write :: "string \<Rightarrow> YamlValue \<Rightarrow> YamlNode \<Rightarrow> YamlNode" where
  \<comment> \<open>Modelled from the spec: \<^verbatim>\<open>YamlNodeWriter::write(key, value)\<close>, not in the file; it
      adds the field to the record.\<close>
  "yaml_write key v writer = writer @ [(key, v)]"

definition tryRead_int :: "string \<Rightarrow> YamlNode \<Rightarrow> int \<Rightarrow> int" where
  \<comment> \<open>Modelled from the spec: \<^verbatim>\<open>YamlNodeReader::tryRead(key, int&)\<close>, not in the file. The
      fields of the record are optional: a field that is there is stored into the
      variable passed by reference, which otherwise keeps the value it has. The third
      argument is that value and the result is the variable after the call.\<close>
  "tryRead_int key reader cur =
     (case map_of reader key of Some (YamlInt v) \<Rightarrow> v | _ \<Rightarrow> cur)"

definition tryRead_bool :: "string \<Rightarrow> YamlNode \<Rightarrow> bool \<Rightarrow> bool" where
  \<comment> \<open>Modelled from the spec: \<^verbatim>\<open>YamlNodeReader::tryRead(key, bool&)\<close>, as for \<^verbatim>\<open>int&\<close>.\<close>
  "tryRead_bool key reader cur =
     (case map_of reader key of Some (YamlBool v) \<Rightarrow> v | _ \<Rightarrow> cur)"

definition load :: "YamlNode \<Rightarrow> CraftWeapon \<Rightarrow> CraftWeapon" where
  \<comment> \<open>Lines 52 to 57.\<close>
  "load reader w =
     (let w1 = w\<lparr>ammo := tryRead_int ''ammo'' reader (ammo w)\<rparr>;
          w2 = w1\<lparr>rearming := tryRead_bool ''rearming'' reader (rearming w1)\<rparr>;
          w3 = w2\<lparr>disabled := tryRead_bool ''disabled'' reader (disabled w2)\<rparr>
      in w3)"

definition save :: "CraftWeapon \<Rightarrow> YamlNode" where
  \<comment> \<open>Lines 63 to 73; the result is the node the writer has built when the call returns.\<close>
  "save w =
     (let writer = setAsMap;
          writer = yaml_write ''type'' (YamlString (getType (rules w))) writer;
          writer = yaml_write ''ammo'' (YamlInt (ammo w)) writer;
          writer = (if rearming w
                    then yaml_write ''rearming'' (YamlBool (rearming w)) writer
                    else writer);
          writer = (if disabled w
                    then yaml_write ''disabled'' (YamlBool (disabled w)) writer
                    else writer)
      in writer)"

subsection \<open>The words of the specification\<close>

definition clamp :: "int \<Rightarrow> int \<Rightarrow> int \<Rightarrow> int" where
  \<comment> \<open>"Clamped to \<open>[lo, hi]\<close>", as the specification says it; not taken from the source.\<close>
  "clamp lo hi x = max lo (min hi x)"

definition ammo_in_range :: "CraftWeapon \<Rightarrow> bool" where
  \<comment> \<open>The invariant the specification gives for \<^verbatim>\<open>ammo\<close>.\<close>
  "ammo_in_range w = (0 \<le> ammo w \<and> ammo w \<le> getAmmoMax (rules w))"

subsection \<open>The inputs of the worked scenarios\<close>

definition rules_60 :: RuleCraftWeapon where
  \<comment> \<open>\<^verbatim>\<open>ammoMax=60, rearmRate=20\<close>, no clip item.\<close>
  "rules_60 = \<lparr>getType = ''STR_CANNON_UC'', getAmmoMax = 60, getRearmRate = 20,
                useStatisticalBulletSaving = False, getClipItem = None\<rparr>"

definition rules_55 :: RuleCraftWeapon where
  \<comment> \<open>\<^verbatim>\<open>ammoMax=55, rearmRate=20\<close>, bullet saving enabled, a clip item of size 15.\<close>
  "rules_55 = \<lparr>getType = ''STR_STINGRAY'', getAmmoMax = 55, getRearmRate = 20,
                useStatisticalBulletSaving = True,
                getClipItem = Some \<lparr>getClipSize = 15\<rparr>\<rparr>"

definition rules_max_rate :: RuleCraftWeapon where
  \<comment> \<open>\<^verbatim>\<open>ammoMax=60\<close> and the greatest \<^verbatim>\<open>int\<close> as rearm rate, no clip item.\<close>
  "rules_max_rate = \<lparr>getType = ''STR_CANNON_UC'', getAmmoMax = 60,
                      getRearmRate = 2147483647,
                      useStatisticalBulletSaving = False, getClipItem = None\<rparr>"

definition rules_max_ammo :: RuleCraftWeapon where
  \<comment> \<open>The greatest \<^verbatim>\<open>int\<close> as \<^verbatim>\<open>ammoMax\<close>, \<^verbatim>\<open>rearmRate=20\<close>, no clip item.\<close>
  "rules_max_ammo = \<lparr>getType = ''STR_CANNON_UC'', getAmmoMax = 2147483647,
                      getRearmRate = 20,
                      useStatisticalBulletSaving = False, getClipItem = None\<rparr>"

definition constant_rng :: "nat \<Rightarrow> RNG" where
  \<comment> \<open>A generator none of whose elements has been consumed, and whose elements are all \<open>n\<close>.\<close>
  "constant_rng n = \<lparr>raw = (\<lambda>i. n), drawn = 0\<rparr>"

section \<open>Properties\<close>

subsection \<open>Arithmetic\<close>

lemma int32_range: "int_range (int32 x)"
proof -
  have "0 \<le> (x + 2 ^ 31) mod (2 ^ 32 :: int)" by simp
  moreover have "(x + 2 ^ 31) mod (2 ^ 32 :: int) < 2 ^ 32" by simp
  ultimately show ?thesis by (simp add: int_range_def int32_def)
qed

lemma int32_id: "int_range x \<Longrightarrow> int32 x = x"
  by (simp add: int_range_def int32_def)



lemma c_add_exact: "int_range (a + b) \<Longrightarrow> c_add a b = a + b"
  by (simp add: c_add_def int32_id)

lemma c_sub_exact: "int_range (a - b) \<Longrightarrow> c_sub a b = a - b"
  by (simp add: c_sub_def int32_id)

lemma c_mul_exact: "int_range (a * b) \<Longrightarrow> c_mul a b = a * b"
  by (simp add: c_mul_def int32_id)

lemma c_div_truncates: "c_div (- 7) 2 = - 3" "(- 7 :: int) div 2 = - 4"
  by (simp_all add: c_div_def)

lemma c_div_nonneg: "0 \<le> a \<Longrightarrow> 0 < b \<Longrightarrow> c_div a b = a div b"
  by (simp add: c_div_def)

lemma c_div_mult_self:
  assumes "0 < b"
  shows "c_div (k * b) b = k"
proof -
  from assms have quot: "\<bar>k * b\<bar> div \<bar>b\<bar> = \<bar>k\<bar>"
    by (simp add: abs_mult)
  from assms have sign: "(k * b < 0) = (k < 0)"
    by (auto simp add: mult_less_0_iff)
  from assms show ?thesis
    unfolding c_div_def quot sign by auto
qed

lemma div_times_le:
  assumes "0 < (c::int)"
  shows "m div c * c \<le> m"
proof -
  have "m div c * c + m mod c = m" by simp
  moreover have "0 \<le> m mod c" using assms by (rule pos_mod_sign)
  ultimately show ?thesis by linarith
qed

lemma c_div_range:
  assumes "int_range a" and "0 < b"
  shows "int_range (c_div a b)"
proof -
  have "\<bar>a\<bar> div b \<le> \<bar>a\<bar>"
  proof -
    have "\<bar>a\<bar> div b * 1 \<le> \<bar>a\<bar> div b * b"
      using assms(2) by (intro mult_left_mono) (simp_all add: pos_imp_zdiv_nonneg_iff)
    also have "\<dots> \<le> \<bar>a\<bar>" using assms(2) by (rule div_times_le)
    finally show ?thesis by simp
  qed
  moreover have "0 \<le> \<bar>a\<bar> div b"
    using assms(2) by (simp add: pos_imp_zdiv_nonneg_iff)
  ultimately show ?thesis
    using assms by (auto simp add: c_div_def int_range_def)
qed

lemma c_div_above_half:
  assumes "int_range a" and "1 < b"
  shows "- (2 ^ 30) \<le> c_div a b"
proof -
  have "\<bar>a\<bar> div b \<le> \<bar>a\<bar> div 2"
    using assms(2) by (intro zdiv_mono2) simp_all
  moreover have "\<bar>a\<bar> \<le> 2 ^ 31" using assms(1) by (simp add: int_range_def) arith
  then have "\<bar>a\<bar> div 2 \<le> 2 ^ 31 div (2::int)" by (rule zdiv_mono1) simp
  moreover have "0 \<le> \<bar>a\<bar> div b"
    using assms(2) by (simp add: pos_imp_zdiv_nonneg_iff)
  ultimately show ?thesis
    using assms(2) by (auto simp add: c_div_def)
qed

subsection \<open>What each call leaves behind\<close>

lemma rearm_pieces:
  "rearm available clipSize w g =
     (let ammoUsed = rearm_ammoUsed w available clipSize;
          (clipsSaved, g1) = rearm_clipsSaved w available clipSize g;
          (ok, w1) = setAmmo (c_add (ammo w) ammoUsed) w;
          w2 = w1\<lparr>rearming := ammo w1 < getAmmoMax (rules w1)\<rparr>
      in ((if clipSize \<le> 0 then 0 else c_sub (c_div ammoUsed clipSize) clipsSaved),
          w2, g1))"
  by (simp add: rearm_def rearm_ammoUsed_def rearm_needed_def rearm_clipsSaved_def
        rearm_overusedAmmo_def Let_def split: prod.splits)

lemma setAmmo_ammo:
  "ammo (snd (setAmmo a w)) = (if a < 0 then 0 else min a (getAmmoMax (rules w)))"
  by (simp add: setAmmo_def Let_def min_def)

lemma setAmmo_other:
  "rules (snd (setAmmo a w)) = rules w"
  "rearming (snd (setAmmo a w)) = rearming w"
  "disabled (snd (setAmmo a w)) = disabled w"
  by (simp_all add: setAmmo_def Let_def)

lemma clipsSaved_cases:
  "fst (rearm_clipsSaved w available clipSize g) = 0
   \<or> fst (rearm_clipsSaved w available clipSize g) = 1"
  by (simp add: rearm_clipsSaved_def Let_def split: prod.splits)

lemma clipsSaved_needs_clips:
  "fst (rearm_clipsSaved w available clipSize g) = 1 \<Longrightarrow> 1 < clipSize"
  by (simp add: rearm_clipsSaved_def Let_def split: prod.splits if_splits)

lemma rearm_ammoUsed_range:
  "0 < clipSize \<Longrightarrow> int_range (rearm_ammoUsed w available clipSize)"
  by (simp add: rearm_ammoUsed_def Let_def c_mul_def int32_range)

lemma rearm_result_exact:
  assumes "0 < clipSize"
  shows "c_sub (c_div (rearm_ammoUsed w available clipSize) clipSize)
               (fst (rearm_clipsSaved w available clipSize g))
         = c_div (rearm_ammoUsed w available clipSize) clipSize
           - fst (rearm_clipsSaved w available clipSize g)"
proof -
  let ?used = "rearm_ammoUsed w available clipSize"
  let ?saved = "fst (rearm_clipsSaved w available clipSize g)"
  have used: "int_range ?used" using assms by (rule rearm_ammoUsed_range)
  then have q: "int_range (c_div ?used clipSize)" using assms by (rule c_div_range)
  have "int_range (c_div ?used clipSize - ?saved)"
  proof (cases "?saved = 1")
    case True
    then have "1 < clipSize" by (rule clipsSaved_needs_clips)
    with used have "- (2 ^ 30) \<le> c_div ?used clipSize" by (rule c_div_above_half)
    with q True show ?thesis by (simp add: int_range_def)
  next
    case False
    with clipsSaved_cases [of w available clipSize g] have "?saved = 0" by blast
    with q show ?thesis by simp
  qed
  then show ?thesis by (rule c_sub_exact)
qed

lemma rearm_result:
  "fst (rearm available clipSize w g) =
     (if clipSize \<le> 0 then 0
      else c_div (rearm_ammoUsed w available clipSize) clipSize
           - fst (rearm_clipsSaved w available clipSize g))"
proof (cases "clipSize \<le> 0")
  case True
  then show ?thesis by (simp add: rearm_pieces Let_def split_beta)
next
  case False
  then have "0 < clipSize" by simp
  then have "c_sub (c_div (rearm_ammoUsed w available clipSize) clipSize)
               (fst (rearm_clipsSaved w available clipSize g))
         = c_div (rearm_ammoUsed w available clipSize) clipSize
           - fst (rearm_clipsSaved w available clipSize g)"
    by (rule rearm_result_exact)
  with False show ?thesis by (simp add: rearm_pieces Let_def split_beta)
qed


lemma rearm_weapon:
  "fst (snd (rearm available clipSize w g)) =
     (snd (setAmmo (c_add (ammo w) (rearm_ammoUsed w available clipSize)) w))
       \<lparr>rearming :=
          ammo (snd (setAmmo (c_add (ammo w) (rearm_ammoUsed w available clipSize)) w))
            < getAmmoMax (rules w)\<rparr>"
  by (simp add: rearm_pieces Let_def setAmmo_other split: prod.splits)
     (simp add: setAmmo_def Let_def split: if_splits)

lemma rearm_rules: "rules (fst (snd (rearm available clipSize w g))) = rules w"
  by (simp add: rearm_weapon setAmmo_other)



subsection \<open>A rearm step in which nothing overflows\<close>

text \<open>
  For a weapon whose ammunition lies between 0 and the maximum of its rules, a positive
  clip size and a maximum that leaves room for one clip below \<open>2^31\<close>, line 166 computes
  the exact values, and so do lines 167 and 183 when the rearm rate and the number of
  available clips are not negative.
\<close>

lemma rearm_needed_exact:
  assumes "0 \<le> ammo w" and "ammo w \<le> getAmmoMax (rules w)" and "0 < clipSize"
    and "getAmmoMax (rules w) + clipSize < 2 ^ 31"
  shows "rearm_needed w clipSize =
           c_div (min (getRearmRate (rules w))
                      (getAmmoMax (rules w) - ammo w + clipSize - 1)) clipSize"
proof -
  have a: "c_sub (getAmmoMax (rules w)) (ammo w) = getAmmoMax (rules w) - ammo w"
    using assms by (intro c_sub_exact) (simp add: int_range_def)
  have b: "c_add (getAmmoMax (rules w) - ammo w) clipSize
             = getAmmoMax (rules w) - ammo w + clipSize"
    using assms by (intro c_add_exact) (simp add: int_range_def)
  have c: "c_sub (getAmmoMax (rules w) - ammo w + clipSize) 1
             = getAmmoMax (rules w) - ammo w + clipSize - 1"
    using assms by (intro c_sub_exact) (simp add: int_range_def)
  show ?thesis by (simp add: rearm_needed_def a b c)
qed

lemma rearm_needed_floor:
  assumes "0 \<le> ammo w" and "ammo w \<le> getAmmoMax (rules w)" and "0 < clipSize"
    and "getAmmoMax (rules w) + clipSize < 2 ^ 31" and "0 \<le> getRearmRate (rules w)"
  shows "rearm_needed w clipSize =
           min (getRearmRate (rules w)) (getAmmoMax (rules w) - ammo w + clipSize - 1)
             div clipSize"
  using assms by (simp add: rearm_needed_exact c_div_nonneg)

lemma rearm_needed_nonneg:
  assumes "0 \<le> ammo w" and "ammo w \<le> getAmmoMax (rules w)" and "0 < clipSize"
    and "getAmmoMax (rules w) + clipSize < 2 ^ 31" and "0 \<le> getRearmRate (rules w)"
  shows "0 \<le> rearm_needed w clipSize"
  using assms by (simp add: rearm_needed_floor pos_imp_zdiv_nonneg_iff)

lemma rearm_ammoUsed_exact:
  assumes "0 \<le> ammo w" and "ammo w \<le> getAmmoMax (rules w)" and "0 < clipSize"
    and "getAmmoMax (rules w) + clipSize < 2 ^ 31" and "0 \<le> getRearmRate (rules w)"
    and "0 \<le> available"
  shows "rearm_ammoUsed w available clipSize = min (rearm_needed w clipSize) available * clipSize
       \<and> 0 \<le> rearm_ammoUsed w available clipSize
       \<and> rearm_ammoUsed w available clipSize \<le> getAmmoMax (rules w) - ammo w + clipSize - 1"
proof -
  let ?m = "min (getRearmRate (rules w)) (getAmmoMax (rules w) - ammo w + clipSize - 1)"
  let ?needed = "rearm_needed w clipSize"
  let ?use = "min ?needed available"
  have needed: "?needed = ?m div clipSize"
    using assms(1-5) by (rule rearm_needed_floor)
  have n0: "0 \<le> ?needed" using assms(1-5) by (rule rearm_needed_nonneg)
  have nm: "?needed * clipSize \<le> ?m"
    unfolding needed using assms(3) by (rule div_times_le)
  have u0: "0 \<le> ?use" using n0 assms(6) by simp
  have "?use * clipSize \<le> ?needed * clipSize"
    using assms(3) by (simp add: mult_right_mono)
  with nm have um: "?use * clipSize \<le> ?m" by simp
  have uu: "0 \<le> ?use * clipSize" using u0 assms(3) by simp
  have "int_range (?use * clipSize)"
    using uu um assms by (simp add: int_range_def)
  then have exact: "c_mul ?use clipSize = ?use * clipSize" by (rule c_mul_exact)
  have pick: "(if ?needed > available then available else ?needed) = ?use"
    by (simp add: min_def)
  have "rearm_ammoUsed w available clipSize = c_mul ?use clipSize"
    using assms(3) unfolding rearm_ammoUsed_def Let_def pick by simp
  with exact have used: "rearm_ammoUsed w available clipSize = ?use * clipSize"
    by simp
  from used uu um show ?thesis by simp
qed

lemma rearm_sum_exact:
  assumes "0 \<le> ammo w" and "ammo w \<le> getAmmoMax (rules w)" and "0 < clipSize"
    and "getAmmoMax (rules w) + clipSize < 2 ^ 31" and "0 \<le> getRearmRate (rules w)"
    and "0 \<le> available"
  shows "c_add (ammo w) (rearm_ammoUsed w available clipSize)
           = ammo w + rearm_ammoUsed w available clipSize"
proof -
  have "0 \<le> rearm_ammoUsed w available clipSize
       \<and> rearm_ammoUsed w available clipSize \<le> getAmmoMax (rules w) - ammo w + clipSize - 1"
    using rearm_ammoUsed_exact [OF assms] by blast
  with assms have "int_range (ammo w + rearm_ammoUsed w available clipSize)"
    by (simp add: int_range_def)
  then show ?thesis by (rule c_add_exact)
qed

subsection \<open>Clips used by one rearm step\<close>

text \<open>
  Claim C1, as amended. Take a weapon whose ammunition lies between 0 and the maximum of
  its rules, a number of available clips that is not negative, a positive clip size,
  rules whose rearm rate is not negative (as the specification requires of a
  configuration), and a maximum and a clip size whose sum is below \<open>2^31\<close>. Then the local
  \<^verbatim>\<open>needed\<close> is the floor of \<open>min(rearmRate, ammoMax - ammo + clipSize - 1)\<close> divided by the
  clip size; \<^verbatim>\<open>ammoUsed\<close> is \<open>min(needed, available)\<close> clips of that size; the ammunition
  after the call is the old one plus \<^verbatim>\<open>ammoUsed\<close>, cut down to the maximum; the call returns
  \<open>ammoUsed / clipSize - clipsSaved\<close>, which is \<open>min(needed, available)\<close> less the 0 or 1
  clip saved, and never more than what was available.
\<close>

theorem rearm_clips:
  assumes "0 \<le> ammo w" and "ammo w \<le> getAmmoMax (rules w)"
    and "0 \<le> available" and "0 < clipSize"
    and "0 \<le> getRearmRate (rules w)"
    and "getAmmoMax (rules w) + clipSize < 2 ^ 31"
  shows "rearm_needed w clipSize =
           min (getRearmRate (rules w)) (getAmmoMax (rules w) - ammo w + clipSize - 1)
             div clipSize
       \<and> rearm_ammoUsed w available clipSize
           = min (rearm_needed w clipSize) available * clipSize
       \<and> ammo (fst (snd (rearm available clipSize w g)))
           = min (ammo w + min (rearm_needed w clipSize) available * clipSize)
                 (getAmmoMax (rules w))
       \<and> fst (rearm available clipSize w g)
           = c_div (rearm_ammoUsed w available clipSize) clipSize
             - fst (rearm_clipsSaved w available clipSize g)
       \<and> fst (rearm available clipSize w g)
           = min (rearm_needed w clipSize) available
             - fst (rearm_clipsSaved w available clipSize g)
       \<and> (fst (rearm_clipsSaved w available clipSize g) = 0
            \<or> fst (rearm_clipsSaved w available clipSize g) = 1)
       \<and> fst (rearm available clipSize w g) \<le> available"
proof -
  let ?needed = "rearm_needed w clipSize"
  let ?clipsToUse = "min ?needed available"
  let ?used = "rearm_ammoUsed w available clipSize"
  let ?saved = "fst (rearm_clipsSaved w available clipSize g)"
  let ?after = "fst (snd (rearm available clipSize w g))"
  have needed: "?needed = min (getRearmRate (rules w))
                  (getAmmoMax (rules w) - ammo w + clipSize - 1) div clipSize"
    using assms(1,2,4,6,5) by (rule rearm_needed_floor)
  have exact: "?used = ?clipsToUse * clipSize \<and> 0 \<le> ?used
               \<and> ?used \<le> getAmmoMax (rules w) - ammo w + clipSize - 1"
    using assms(1,2,4,6,5,3) by (rule rearm_ammoUsed_exact)
  then have used: "?used = ?clipsToUse * clipSize" by blast
  have sum: "c_add (ammo w) ?used = ammo w + ?used"
    using assms(1,2,4,6,5,3) by (rule rearm_sum_exact)
  from exact assms(1) have "\<not> ammo w + ?used < 0" by simp
  then have "ammo ?after = min (ammo w + ?used) (getAmmoMax (rules w))"
    by (simp add: rearm_weapon setAmmo_ammo sum)
  then have new: "ammo ?after = min (ammo w + ?clipsToUse * clipSize) (getAmmoMax (rules w))"
    by (simp only: used)
  have res: "fst (rearm available clipSize w g) = c_div ?used clipSize - ?saved"
    using assms(4) by (simp add: rearm_result)
  have res': "fst (rearm available clipSize w g) = ?clipsToUse - ?saved"
    using assms(4) by (simp add: res used c_div_mult_self)
  have saved: "?saved = 0 \<or> ?saved = 1" by (rule clipsSaved_cases)
  have le: "fst (rearm available clipSize w g) \<le> available"
    using saved by (auto simp: res')
  from needed used new res res' saved le show ?thesis by blast
qed

text \<open>
  The second scenario of the specification: 40 rounds of 55, five clips of 10 available,
  and a draw of 3, which is less than the 5 rounds that would not fit.
\<close>

theorem rearm_clips_witness:
  "0 \<le> ammo (CraftWeapon_new rules_55 40)
   \<and> ammo (CraftWeapon_new rules_55 40) \<le> getAmmoMax (rules (CraftWeapon_new rules_55 40))
   \<and> (0::int) \<le> 5 \<and> (0::int) < 10
   \<and> 0 \<le> getRearmRate (rules (CraftWeapon_new rules_55 40))
   \<and> getAmmoMax (rules (CraftWeapon_new rules_55 40)) + 10 < 2 ^ 31
   \<and> rearm_needed (CraftWeapon_new rules_55 40) 10 = 2
   \<and> rearm_ammoUsed (CraftWeapon_new rules_55 40) 5 10 = 20
   \<and> ammo (fst (snd (rearm 5 10 (CraftWeapon_new rules_55 40) (constant_rng 3)))) = 55
   \<and> fst (rearm_clipsSaved (CraftWeapon_new rules_55 40) 5 10 (constant_rng 3)) = 1
   \<and> fst (rearm 5 10 (CraftWeapon_new rules_55 40) (constant_rng 3)) = 1"
proof -
  let ?w = "CraftWeapon_new rules_55 40"
  have a: "ammo ?w = 40" by (simp add: CraftWeapon_new_def)
  have m: "getAmmoMax (rules ?w) = 55" by (simp add: CraftWeapon_new_def rules_55_def)
  have r: "getRearmRate (rules ?w) = 20" by (simp add: CraftWeapon_new_def rules_55_def)
  have f: "useStatisticalBulletSaving (rules ?w)"
    by (simp add: CraftWeapon_new_def rules_55_def)
  have h1: "0 \<le> ammo ?w" by (simp add: a)
  have h2: "ammo ?w \<le> getAmmoMax (rules ?w)" by (simp add: a m)
  have h3: "(0::int) \<le> 5" by simp
  have h4: "(0::int) < 10" by simp
  have h5: "0 \<le> getRearmRate (rules ?w)" by (simp add: r)
  have h6: "getAmmoMax (rules ?w) + 10 < 2 ^ 31" by (simp add: m)
  note step = rearm_clips [OF h1 h2 h3 h4 h5 h6, of "constant_rng 3"]
  from step have "rearm_needed ?w 10 =
      min (getRearmRate (rules ?w)) (getAmmoMax (rules ?w) - ammo ?w + 10 - 1) div 10"
    by blast
  then have needed: "rearm_needed ?w 10 = 2"
    by (simp add: a m r)
  from step have "rearm_ammoUsed ?w 5 10 = min (rearm_needed ?w 10) 5 * 10"
    by blast
  then have used: "rearm_ammoUsed ?w 5 10 = 20"
    by (simp add: needed)
  have over: "rearm_overusedAmmo ?w 5 10 = 5"
    by (simp add: rearm_overusedAmmo_def used a m c_add_def c_sub_def int32_def)
  have d: "fst (generate 0 (c_sub 10 1) (constant_rng 3)) = 3"
    by (simp add: generate_def constant_rng_def c_sub_def int32_def)
  have saved: "fst (rearm_clipsSaved ?w 5 10 (constant_rng 3)) = 1"
    by (simp add: rearm_clipsSaved_def over f d Let_def split_beta)
  from step have "ammo (fst (snd (rearm 5 10 ?w (constant_rng 3))))
      = min (ammo ?w + min (rearm_needed ?w 10) 5 * 10) (getAmmoMax (rules ?w))"
    by blast
  then have new: "ammo (fst (snd (rearm 5 10 ?w (constant_rng 3)))) = 55"
    by (simp add: a m needed)
  from step have "fst (rearm 5 10 ?w (constant_rng 3))
      = min (rearm_needed ?w 10) 5 - fst (rearm_clipsSaved ?w 5 10 (constant_rng 3))"
    by blast
  then have res: "fst (rearm 5 10 ?w (constant_rng 3)) = 1"
    by (simp add: needed saved)
  from h1 h2 h5 h6 needed used new saved res show ?thesis by simp
qed

text \<open>
  Without the bound the claim fails. With a maximum of 60, no round loaded, and a rearm
  rate and a clip size that are both the greatest \<^verbatim>\<open>int\<close>, the sum of line 166 is no value
  of \<^verbatim>\<open>int\<close>: \<^verbatim>\<open>needed\<close> is 0 where the floor of the claim is 1, no round is loaded where the
  claim loads the weapon to its 60, and no clip is used where the claim uses one.
\<close>

theorem rearm_clips_counterexample:
  "0 \<le> ammo (CraftWeapon_new rules_max_rate 0)
   \<and> ammo (CraftWeapon_new rules_max_rate 0)
       \<le> getAmmoMax (rules (CraftWeapon_new rules_max_rate 0))
   \<and> (0::int) \<le> 5 \<and> (0::int) < 2147483647
   \<and> rearm_needed (CraftWeapon_new rules_max_rate 0) 2147483647 = 0
   \<and> min (getRearmRate (rules (CraftWeapon_new rules_max_rate 0)))
          (getAmmoMax (rules (CraftWeapon_new rules_max_rate 0))
           - ammo (CraftWeapon_new rules_max_rate 0) + 2147483647 - 1)
        div 2147483647 = 1
   \<and> ammo (fst (snd (rearm 5 2147483647 (CraftWeapon_new rules_max_rate 0)
                        (constant_rng 3)))) = 0
   \<and> min (ammo (CraftWeapon_new rules_max_rate 0) + min 1 5 * 2147483647)
          (getAmmoMax (rules (CraftWeapon_new rules_max_rate 0))) = 60
   \<and> fst (rearm 5 2147483647 (CraftWeapon_new rules_max_rate 0) (constant_rng 3)) = 0"
proof -
  let ?w = "CraftWeapon_new rules_max_rate 0"
  have a: "ammo ?w = 0" by (simp add: CraftWeapon_new_def)
  have m: "getAmmoMax (rules ?w) = 60"
    by (simp add: CraftWeapon_new_def rules_max_rate_def)
  have r: "getRearmRate (rules ?w) = 2147483647"
    by (simp add: CraftWeapon_new_def rules_max_rate_def)
  have f: "\<not> useStatisticalBulletSaving (rules ?w)"
    by (simp add: CraftWeapon_new_def rules_max_rate_def)
  have needed: "rearm_needed ?w 2147483647 = 0"
    by (simp add: rearm_needed_def a m r c_sub_def c_add_def int32_def c_div_def)
  have used: "rearm_ammoUsed ?w 5 2147483647 = 0"
    by (simp add: rearm_ammoUsed_def needed c_mul_def int32_def)
  have saved: "fst (rearm_clipsSaved ?w 5 2147483647 (constant_rng 3)) = 0"
    by (simp add: rearm_clipsSaved_def f)
  have new: "ammo (fst (snd (rearm 5 2147483647 ?w (constant_rng 3)))) = 0"
    by (simp add: rearm_weapon setAmmo_ammo used a m c_add_def int32_def)
  have res: "fst (rearm 5 2147483647 ?w (constant_rng 3)) = 0"
    by (simp add: rearm_result used saved c_div_def)
  from needed new res show ?thesis by (simp add: a m r)
qed

subsection \<open>Statistical bullet saving\<close>


lemma rearm_clipsSaved_no_draw:
  assumes "\<not> (1 < clipSize \<and> useStatisticalBulletSaving (rules w)
              \<and> 0 < rearm_overusedAmmo w available clipSize)"
  shows "rearm_clipsSaved w available clipSize g = (0, g)"
  using assms by (auto simp add: rearm_clipsSaved_def Let_def split: prod.splits)




subsection \<open>Setting the ammunition\<close>

text \<open>
  Claim C3. For every argument: a negative one leaves 0 rounds and returns false; one
  that is not negative and exceeds the maximum of the rules leaves that maximum and
  returns true (with a maximum that is not negative, exceeding it is enough); any other
  is stored as it is and returns true. The first test of the source that applies decides,
  in this order. The rearming flag, the disabled flag and the rules are those of before.
\<close>

theorem setAmmo_clamps:
  "(a < 0 \<longrightarrow> setAmmo a w = (False, w\<lparr>ammo := 0\<rparr>))
   \<and> (\<not> a < 0 \<and> getAmmoMax (rules w) < a
        \<longrightarrow> setAmmo a w = (True, w\<lparr>ammo := getAmmoMax (rules w)\<rparr>))
   \<and> (0 \<le> getAmmoMax (rules w) \<and> getAmmoMax (rules w) < a
        \<longrightarrow> setAmmo a w = (True, w\<lparr>ammo := getAmmoMax (rules w)\<rparr>))
   \<and> (\<not> a < 0 \<and> \<not> getAmmoMax (rules w) < a \<longrightarrow> setAmmo a w = (True, w\<lparr>ammo := a\<rparr>))
   \<and> rearming (snd (setAmmo a w)) = rearming w
   \<and> disabled (snd (setAmmo a w)) = disabled w
   \<and> rules (snd (setAmmo a w)) = rules w"
  by (simp add: setAmmo_def Let_def)

theorem setAmmo_clamps_witness:
  "((-3::int) < 0
      \<and> setAmmo (-3) (CraftWeapon_new rules_60 30)
          = (False, (CraftWeapon_new rules_60 30)\<lparr>ammo := 0\<rparr>))
   \<and> (\<not> (70::int) < 0 \<and> getAmmoMax (rules (CraftWeapon_new rules_60 30)) < 70
      \<and> 0 \<le> getAmmoMax (rules (CraftWeapon_new rules_60 30))
      \<and> setAmmo 70 (CraftWeapon_new rules_60 30)
          = (True, (CraftWeapon_new rules_60 30)\<lparr>ammo := 60\<rparr>))
   \<and> (\<not> (45::int) < 0 \<and> \<not> getAmmoMax (rules (CraftWeapon_new rules_60 30)) < 45
      \<and> setAmmo 45 (CraftWeapon_new rules_60 30)
          = (True, (CraftWeapon_new rules_60 30)\<lparr>ammo := 45\<rparr>))"
proof -
  let ?w = "CraftWeapon_new rules_60 30"
  have m: "getAmmoMax (rules ?w) = 60" by (simp add: CraftWeapon_new_def rules_60_def)
  have low: "setAmmo (-3) ?w = (False, ?w\<lparr>ammo := 0\<rparr>)"
    using setAmmo_clamps [of "-3" ?w] by simp
  have high: "setAmmo 70 ?w = (True, ?w\<lparr>ammo := 60\<rparr>)"
    using setAmmo_clamps [of 70 ?w] by (simp add: m)
  have mid: "setAmmo 45 ?w = (True, ?w\<lparr>ammo := 45\<rparr>)"
    using setAmmo_clamps [of 45 ?w] by (simp add: m)
  from low high mid show ?thesis by (simp add: m)
qed

subsection \<open>The range of the ammunition\<close>

lemma setAmmo_in_range:
  "0 \<le> getAmmoMax (rules w) \<Longrightarrow> ammo_in_range (snd (setAmmo a w))"
  by (simp add: ammo_in_range_def setAmmo_ammo setAmmo_other)

lemma rearm_in_range:
  "0 \<le> getAmmoMax (rules w) \<Longrightarrow> ammo_in_range (fst (snd (rearm available clipSize w g)))"
  by (simp add: ammo_in_range_def rearm_weapon setAmmo_ammo setAmmo_other)

text \<open>
  Claim C4. With rules whose maximum is not negative and a weapon whose ammunition lies
  between 0 and that maximum, the ammunition lies there again after \<^verbatim>\<open>setAmmo\<close> with any
  argument and after \<^verbatim>\<open>rearm\<close> with any clip size and any number of available clips that
  is not negative. (The two lemmas before need the first of the three hypotheses only.)
\<close>

theorem ammo_invariant_kept:
  assumes "0 \<le> getAmmoMax (rules w)" and "ammo_in_range w" and "0 \<le> available"
  shows "ammo_in_range (snd (setAmmo a w))
       \<and> ammo_in_range (fst (snd (rearm available clipSize w g)))"
  using assms(1) by (simp add: setAmmo_in_range rearm_in_range)

theorem ammo_invariant_kept_witness:
  "0 \<le> getAmmoMax (rules (CraftWeapon_new rules_55 40))
   \<and> ammo_in_range (CraftWeapon_new rules_55 40)
   \<and> (0::int) \<le> 5
   \<and> ammo_in_range (snd (setAmmo 70 (CraftWeapon_new rules_55 40)))
   \<and> ammo_in_range (fst (snd (rearm 5 10 (CraftWeapon_new rules_55 40) (constant_rng 3))))"
proof -
  let ?w = "CraftWeapon_new rules_55 40"
  have h1: "0 \<le> getAmmoMax (rules ?w)" by (simp add: CraftWeapon_new_def rules_55_def)
  have h2: "ammo_in_range ?w" by (simp add: ammo_in_range_def CraftWeapon_new_def rules_55_def)
  have h3: "(0::int) \<le> 5" by simp
  from h1 h2 ammo_invariant_kept [OF h1 h2 h3, of 70 10 "constant_rng 3"]
  show ?thesis by simp
qed

subsection \<open>Rearming a weapon that takes no clips\<close>

text \<open>
  Claim C5, as amended. With a clip size of 0 or less, for every weapon and rules for
  which the ammunition plus the rearm rate is a value of \<^verbatim>\<open>int\<close>, for every generator and
  number of available clips, \<^verbatim>\<open>rearm\<close> returns 0, leaves the generator as it was, and leaves
  the weapon with the rearm rate added to its ammunition: 0 if that sum is negative, and
  otherwise the sum or the maximum of the rules, whichever is less; this is the sum
  clamped to \<open>[0, ammoMax]\<close> when the maximum is not negative. \<^verbatim>\<open>ammoUsed\<close> is the rearm
  rate itself and no clip is saved.
\<close>

theorem rearm_without_clips:
  assumes "clipSize \<le> 0"
    and "int_range (ammo w + getRearmRate (rules w))"
  shows "rearm available clipSize w g =
           (0,
            w\<lparr>ammo := (if ammo w + getRearmRate (rules w) < 0 then 0
                        else min (ammo w + getRearmRate (rules w)) (getAmmoMax (rules w))),
              rearming := (if ammo w + getRearmRate (rules w) < 0 then 0
                           else min (ammo w + getRearmRate (rules w)) (getAmmoMax (rules w)))
                          < getAmmoMax (rules w)\<rparr>,
            g)
       \<and> rearm_ammoUsed w available clipSize = getRearmRate (rules w)
       \<and> rearm_clipsSaved w available clipSize g = (0, g)
       \<and> (0 \<le> getAmmoMax (rules w) \<longrightarrow>
            ammo (fst (snd (rearm available clipSize w g)))
              = clamp 0 (getAmmoMax (rules w)) (ammo w + getRearmRate (rules w)))"
proof -
  from assms(1) have used: "rearm_ammoUsed w available clipSize = getRearmRate (rules w)"
    by (simp add: rearm_ammoUsed_def)
  from assms(1) have saved: "rearm_clipsSaved w available clipSize g = (0, g)"
    by (simp add: rearm_clipsSaved_no_draw)
  from assms(2) have sum: "c_add (ammo w) (getRearmRate (rules w))
                             = ammo w + getRearmRate (rules w)"
    by (rule c_add_exact)
  have whole: "rearm available clipSize w g =
           (0,
            w\<lparr>ammo := (if ammo w + getRearmRate (rules w) < 0 then 0
                        else min (ammo w + getRearmRate (rules w)) (getAmmoMax (rules w))),
              rearming := (if ammo w + getRearmRate (rules w) < 0 then 0
                           else min (ammo w + getRearmRate (rules w)) (getAmmoMax (rules w)))
                          < getAmmoMax (rules w)\<rparr>,
            g)"
    using assms(1) by (simp add: rearm_pieces used saved sum setAmmo_def Let_def min_def)
  have "0 \<le> getAmmoMax (rules w) \<longrightarrow>
            ammo (fst (snd (rearm available clipSize w g)))
              = clamp 0 (getAmmoMax (rules w)) (ammo w + getRearmRate (rules w))"
    by (simp add: whole clamp_def min_def max_def)
  with used saved whole show ?thesis by blast
qed

text \<open>
  A weapon of the first scenario holding 10 rounds gains the 20 of its rearm rate; one of
  the second holding 40 of 55 is filled to 55. Five clips are at hand and none is used.
\<close>

theorem rearm_without_clips_witness:
  "(0::int) \<le> 0
   \<and> int_range (ammo (CraftWeapon_new rules_60 10)
                 + getRearmRate (rules (CraftWeapon_new rules_60 10)))
   \<and> rearm 5 0 (CraftWeapon_new rules_60 10) (constant_rng 3)
       = (0, (CraftWeapon_new rules_60 10)\<lparr>ammo := 30, rearming := True\<rparr>, constant_rng 3)
   \<and> int_range (ammo (CraftWeapon_new rules_55 40)
                 + getRearmRate (rules (CraftWeapon_new rules_55 40)))
   \<and> 0 \<le> getAmmoMax (rules (CraftWeapon_new rules_55 40))
   \<and> rearm 5 0 (CraftWeapon_new rules_55 40) (constant_rng 3)
       = (0, (CraftWeapon_new rules_55 40)\<lparr>ammo := 55, rearming := False\<rparr>, constant_rng 3)
   \<and> ammo (fst (snd (rearm 5 0 (CraftWeapon_new rules_55 40) (constant_rng 3))))
       = clamp 0 (getAmmoMax (rules (CraftWeapon_new rules_55 40)))
           (ammo (CraftWeapon_new rules_55 40)
            + getRearmRate (rules (CraftWeapon_new rules_55 40)))"
proof -
  let ?v = "CraftWeapon_new rules_60 10"
  let ?w = "CraftWeapon_new rules_55 40"
  have h: "(0::int) \<le> 0" by simp
  have v: "ammo ?v = 10" "getAmmoMax (rules ?v) = 60" "getRearmRate (rules ?v) = 20"
    by (simp_all add: CraftWeapon_new_def rules_60_def)
  have w: "ammo ?w = 40" "getAmmoMax (rules ?w) = 55" "getRearmRate (rules ?w) = 20"
    by (simp_all add: CraftWeapon_new_def rules_55_def)
  have rv: "int_range (ammo ?v + getRearmRate (rules ?v))"
    by (simp add: v int_range_def)
  have rw: "int_range (ammo ?w + getRearmRate (rules ?w))"
    by (simp add: w int_range_def)
  have one: "rearm 5 0 ?v (constant_rng 3)
               = (0, ?v\<lparr>ammo := 30, rearming := True\<rparr>, constant_rng 3)"
    using rearm_without_clips [OF h rv, of 5 "constant_rng 3"] by (simp add: v)
  have two: "rearm 5 0 ?w (constant_rng 3)
               = (0, ?w\<lparr>ammo := 55, rearming := False\<rparr>, constant_rng 3)"
    using rearm_without_clips [OF h rw, of 5 "constant_rng 3"] by (simp add: w)
  have m: "0 \<le> getAmmoMax (rules ?w)" by (simp add: w)
  have "0 \<le> getAmmoMax (rules ?w) \<longrightarrow>
          ammo (fst (snd (rearm 5 0 ?w (constant_rng 3))))
            = clamp 0 (getAmmoMax (rules ?w)) (ammo ?w + getRearmRate (rules ?w))"
    using rearm_without_clips [OF h rw, of 5 "constant_rng 3"] by blast
  with m have three: "ammo (fst (snd (rearm 5 0 ?w (constant_rng 3))))
                 = clamp 0 (getAmmoMax (rules ?w)) (ammo ?w + getRearmRate (rules ?w))"
    by blast
  from h rv one rw m two three show ?thesis by blast
qed

text \<open>
  Without the bound the claim fails. A weapon holding 2147483640 rounds, with the
  greatest \<^verbatim>\<open>int\<close> as maximum and a rearm rate of 20, lies within the invariant of the
  specification; line 183 adds past the greatest \<^verbatim>\<open>int\<close>, and the weapon is left with no
  round and rearming, where the claim leaves it full.
\<close>

theorem rearm_without_clips_counterexample:
  "(0::int) \<le> 0
   \<and> ammo_in_range (CraftWeapon_new rules_max_ammo 2147483640)
   \<and> 0 \<le> getRearmRate (rules (CraftWeapon_new rules_max_ammo 2147483640))
   \<and> ammo (fst (snd (rearm 5 0 (CraftWeapon_new rules_max_ammo 2147483640)
                        (constant_rng 3)))) = 0
   \<and> rearming (fst (snd (rearm 5 0 (CraftWeapon_new rules_max_ammo 2147483640)
                            (constant_rng 3))))
   \<and> clamp 0 (getAmmoMax (rules (CraftWeapon_new rules_max_ammo 2147483640)))
        (ammo (CraftWeapon_new rules_max_ammo 2147483640)
         + getRearmRate (rules (CraftWeapon_new rules_max_ammo 2147483640)))
       = 2147483647"
proof -
  let ?w = "CraftWeapon_new rules_max_ammo 2147483640"
  have w: "ammo ?w = 2147483640" "getAmmoMax (rules ?w) = 2147483647"
    "getRearmRate (rules ?w) = 20"
    by (simp_all add: CraftWeapon_new_def rules_max_ammo_def)
  have inv: "ammo_in_range ?w" by (simp add: ammo_in_range_def w)
  have used: "rearm_ammoUsed ?w 5 0 = 20"
    by (simp add: rearm_ammoUsed_def w)
  have sum: "c_add (ammo ?w) (rearm_ammoUsed ?w 5 0) = - 2147483636"
    by (simp add: used w c_add_def int32_def)
  have new: "ammo (fst (snd (rearm 5 0 ?w (constant_rng 3)))) = 0"
    by (simp add: rearm_weapon setAmmo_ammo sum)
  have flag: "rearming (fst (snd (rearm 5 0 ?w (constant_rng 3))))"
    by (simp add: rearm_weapon setAmmo_ammo sum w(2))
  have claimed: "clamp 0 (getAmmoMax (rules ?w)) (ammo ?w + getRearmRate (rules ?w))
                   = 2147483647"
    by (simp add: clamp_def w)
  from inv new flag claimed show ?thesis by (simp add: w)
qed

subsection \<open>A disabled weapon does not present as rearming\<close>

text \<open>
  Claim C6. A disabled weapon answers false to \<^verbatim>\<open>isRearming\<close> whatever its rearming flag
  holds, and a weapon that is not disabled answers with the flag. The query is a
  \<^verbatim>\<open>const\<close> member, a function of the weapon with no weapon in its result. Disabling and
  enabling write the disabled flag only: the rearming flag is the one held before, and a
  weapon disabled and enabled again answers with it.
\<close>

theorem isRearming_masked:
  "(disabled w \<longrightarrow> isRearming w = False)
   \<and> (\<not> disabled w \<longrightarrow> isRearming w = rearming w)
   \<and> rearming (setDisabled b w) = rearming w
   \<and> isRearming (setDisabled True w) = False
   \<and> isRearming (setDisabled False (setDisabled True w)) = rearming w"
  by (simp add: isRearming_def setDisabled_def)

theorem isRearming_masked_witness:
  "(disabled (setDisabled True (setRearming True (CraftWeapon_new rules_60 30)))
      \<and> rearming (setDisabled True (setRearming True (CraftWeapon_new rules_60 30)))
      \<and> isRearming (setDisabled True (setRearming True (CraftWeapon_new rules_60 30)))
          = False)
   \<and> (\<not> disabled (setRearming True (CraftWeapon_new rules_60 30))
      \<and> isRearming (setRearming True (CraftWeapon_new rules_60 30)) = True)"
proof -
  let ?w = "setRearming True (CraftWeapon_new rules_60 30)"
  have r: "rearming ?w" by (simp add: setRearming_def)
  have e: "\<not> disabled ?w" by (simp add: setRearming_def CraftWeapon_new_def)
  have d: "disabled (setDisabled True ?w)" by (simp add: setDisabled_def)
  have r': "rearming (setDisabled True ?w)"
    using r isRearming_masked [of ?w True] by simp
  have off: "isRearming (setDisabled True ?w) = False"
    using d isRearming_masked [of "setDisabled True ?w" True] by simp
  have on: "isRearming ?w = True"
    using e r isRearming_masked [of ?w True] by simp
  from d r' off e on show ?thesis by simp
qed

subsection \<open>The rearming flag after a rearm step\<close>

lemma rearm_none_available:
  assumes "0 < clipSize" and "0 \<le> getRearmRate (rules w)"
    and "0 \<le> ammo w" and "ammo w \<le> getAmmoMax (rules w)"
    and "getAmmoMax (rules w) + clipSize < 2 ^ 31"
  shows "rearm_ammoUsed w 0 clipSize = 0"
proof -
  have "0 \<le> rearm_needed w clipSize"
    using assms(3,4,1,5,2) by (rule rearm_needed_nonneg)
  moreover have "rearm_ammoUsed w 0 clipSize = min (rearm_needed w clipSize) 0 * clipSize"
    using rearm_ammoUsed_exact [OF assms(3,4,1,5,2), of 0] by simp
  ultimately show ?thesis by simp
qed

text \<open>
  Claim C7, as amended. After every call of \<^verbatim>\<open>rearm\<close>, whatever its arguments, the rearming
  flag of the weapon says whether its ammunition, as the call left it, is below the
  maximum of its rules. With no clip available and a positive clip size, for rules whose
  rearm rate is not negative, a weapon whose ammunition lies between 0 and the maximum,
  and a maximum and a clip size whose sum is below \<open>2^31\<close>, \<^verbatim>\<open>ammoUsed\<close> is 0; and if the
  weapon held less than the maximum, it holds the same afterwards and its rearming flag
  is set.
\<close>

theorem rearm_sets_rearming:
  "rearming (fst (snd (rearm available clipSize w g)))
     = (ammo (fst (snd (rearm available clipSize w g)))
          < getAmmoMax (rules (fst (snd (rearm available clipSize w g)))))
   \<and> (available = 0 \<and> 0 < clipSize \<and> 0 \<le> getRearmRate (rules w)
        \<and> 0 \<le> ammo w \<and> ammo w \<le> getAmmoMax (rules w)
        \<and> getAmmoMax (rules w) + clipSize < 2 ^ 31
      \<longrightarrow> rearm_ammoUsed w available clipSize = 0)
   \<and> (available = 0 \<and> 0 < clipSize \<and> 0 \<le> getRearmRate (rules w)
        \<and> 0 \<le> ammo w \<and> ammo w < getAmmoMax (rules w)
        \<and> getAmmoMax (rules w) + clipSize < 2 ^ 31
      \<longrightarrow> ammo (fst (snd (rearm available clipSize w g))) = ammo w
          \<and> rearming (fst (snd (rearm available clipSize w g))))"
proof -
  have flag: "rearming (fst (snd (rearm available clipSize w g)))
     = (ammo (fst (snd (rearm available clipSize w g)))
          < getAmmoMax (rules (fst (snd (rearm available clipSize w g)))))"
    by (simp add: rearm_rules) (simp add: rearm_weapon)
  have none: "available = 0 \<and> 0 < clipSize \<and> 0 \<le> getRearmRate (rules w)
        \<and> 0 \<le> ammo w \<and> ammo w \<le> getAmmoMax (rules w)
        \<and> getAmmoMax (rules w) + clipSize < 2 ^ 31
      \<longrightarrow> rearm_ammoUsed w available clipSize = 0"
    by (simp add: rearm_none_available)
  have stays: "available = 0 \<and> 0 < clipSize \<and> 0 \<le> getRearmRate (rules w)
        \<and> 0 \<le> ammo w \<and> ammo w < getAmmoMax (rules w)
        \<and> getAmmoMax (rules w) + clipSize < 2 ^ 31
      \<longrightarrow> ammo (fst (snd (rearm available clipSize w g))) = ammo w
          \<and> rearming (fst (snd (rearm available clipSize w g)))"
  proof
    assume h: "available = 0 \<and> 0 < clipSize \<and> 0 \<le> getRearmRate (rules w)
        \<and> 0 \<le> ammo w \<and> ammo w < getAmmoMax (rules w)
        \<and> getAmmoMax (rules w) + clipSize < 2 ^ 31"
    then have av: "available = 0" by blast
    from h have used: "rearm_ammoUsed w 0 clipSize = 0"
      by (simp add: rearm_none_available)
    from h have "int_range (ammo w + 0)" by (simp add: int_range_def)
    then have "c_add (ammo w) 0 = ammo w + 0" by (rule c_add_exact)
    then have sum: "c_add (ammo w) 0 = ammo w" by simp
    from h show "ammo (fst (snd (rearm available clipSize w g))) = ammo w
          \<and> rearming (fst (snd (rearm available clipSize w g)))"
      by (simp add: av rearm_weapon setAmmo_ammo used sum)
  qed
  from flag none stays show ?thesis by blast
qed

text \<open>A weapon of the first scenario holding 30 of 60 rounds, with no clip at hand.\<close>

theorem rearm_sets_rearming_witness:
  "((0::int) = 0 \<and> (0::int) < 10
      \<and> 0 \<le> getRearmRate (rules (CraftWeapon_new rules_60 30))
      \<and> 0 \<le> ammo (CraftWeapon_new rules_60 30)
      \<and> ammo (CraftWeapon_new rules_60 30) < getAmmoMax (rules (CraftWeapon_new rules_60 30))
      \<and> getAmmoMax (rules (CraftWeapon_new rules_60 30)) + 10 < 2 ^ 31
      \<and> rearm_ammoUsed (CraftWeapon_new rules_60 30) 0 10 = 0
      \<and> ammo (fst (snd (rearm 0 10 (CraftWeapon_new rules_60 30) (constant_rng 3)))) = 30
      \<and> rearming (fst (snd (rearm 0 10 (CraftWeapon_new rules_60 30) (constant_rng 3)))))"
proof -
  let ?w = "CraftWeapon_new rules_60 30"
  have w: "ammo ?w = 30" "getAmmoMax (rules ?w) = 60" "getRearmRate (rules ?w) = 20"
    by (simp_all add: CraftWeapon_new_def rules_60_def)
  have hyp: "(0::int) = 0 \<and> (0::int) < 10 \<and> 0 \<le> getRearmRate (rules ?w)
             \<and> 0 \<le> ammo ?w \<and> ammo ?w < getAmmoMax (rules ?w)
             \<and> ammo ?w \<le> getAmmoMax (rules ?w)
             \<and> getAmmoMax (rules ?w) + 10 < 2 ^ 31"
    by (simp add: w)
  have "rearm_ammoUsed ?w 0 10 = 0
        \<and> ammo (fst (snd (rearm 0 10 ?w (constant_rng 3)))) = ammo ?w
        \<and> rearming (fst (snd (rearm 0 10 ?w (constant_rng 3))))"
    using hyp rearm_sets_rearming [of 0 10 ?w "constant_rng 3"] by blast
  with hyp show ?thesis by (simp add: w(1))
qed

text \<open>
  Without the bound the second part fails. A weapon with no round, the greatest \<^verbatim>\<open>int\<close> as
  maximum and a rearm rate of 20 is offered no clip, of size 2: the sum of line 166 is no
  value of \<^verbatim>\<open>int\<close>, \<^verbatim>\<open>needed\<close> is negative, and \<^verbatim>\<open>ammoUsed\<close> is the least \<^verbatim>\<open>int\<close>, not 0.
\<close>

theorem rearm_sets_rearming_counterexample:
  "(0::int) < 2
   \<and> 0 \<le> getRearmRate (rules (CraftWeapon_new rules_max_ammo 0))
   \<and> 0 \<le> ammo (CraftWeapon_new rules_max_ammo 0)
   \<and> ammo (CraftWeapon_new rules_max_ammo 0)
       < getAmmoMax (rules (CraftWeapon_new rules_max_ammo 0))
   \<and> rearm_needed (CraftWeapon_new rules_max_ammo 0) 2 = - 1073741824
   \<and> rearm_ammoUsed (CraftWeapon_new rules_max_ammo 0) 0 2 = - 2147483648
   \<and> rearm_ammoUsed (CraftWeapon_new rules_max_ammo 0) 0 2 \<noteq> 0
   \<and> fst (rearm 0 2 (CraftWeapon_new rules_max_ammo 0) (constant_rng 3)) = - 1073741824"
proof -
  let ?w = "CraftWeapon_new rules_max_ammo 0"
  have w: "ammo ?w = 0" "getAmmoMax (rules ?w) = 2147483647"
    "getRearmRate (rules ?w) = 20" "\<not> useStatisticalBulletSaving (rules ?w)"
    by (simp_all add: CraftWeapon_new_def rules_max_ammo_def)
  have needed: "rearm_needed ?w 2 = - 1073741824"
    by (simp add: rearm_needed_def w c_sub_def c_add_def int32_def c_div_def)
  have used: "rearm_ammoUsed ?w 0 2 = - 2147483648"
    by (simp add: rearm_ammoUsed_def needed c_mul_def int32_def)
  have saved: "fst (rearm_clipsSaved ?w 0 2 (constant_rng 3)) = 0"
    by (simp add: rearm_clipsSaved_def w)
  have res: "fst (rearm 0 2 ?w (constant_rng 3)) = - 1073741824"
    by (simp add: rearm_result used saved c_div_def)
  from needed used res show ?thesis by (simp add: w)
qed

subsection \<open>Saving and loading\<close>

lemma save_plain:
  "\<not> rearming w \<Longrightarrow> \<not> disabled w \<Longrightarrow>
   save w = [(''type'', YamlString (getType (rules w))), (''ammo'', YamlInt (ammo w))]"
  by (simp add: save_def setAsMap_def yaml_write_def)

lemma load_absent_keeps:
  "map_of reader ''rearming'' = None \<Longrightarrow> map_of reader ''disabled'' = None \<Longrightarrow>
   rearming (load reader w) = rearming w \<and> disabled (load reader w) = disabled w"
  by (simp add: load_def tryRead_bool_def)

lemma load_save: "load (save w) (CraftWeapon_new (rules w) a0) = w"
  by (cases "rearming w"; cases "disabled w")
     (simp_all add: load_def save_def setAsMap_def yaml_write_def tryRead_int_def
        tryRead_bool_def CraftWeapon_new_def)

text \<open>
  Claim C8, as amended. The record saved from a weapon whose two flags are false has the
  keys \<open>type\<close> and \<open>ammo\<close> and neither \<open>rearming\<close> nor \<open>disabled\<close>. Loading a record that
  has neither key leaves both flags as the receiving weapon has them: \<^verbatim>\<open>load\<close> stores the
  fields that are there and resets nothing. Loaded into a weapon just constructed, whose
  flags the constructor has set to false, such a record gives a weapon whose two flags
  are false. So the record saved from a weapon constructed with 30 rounds, loaded into a
  weapon constructed from the same rules with any ammunition, gives 30 rounds and both
  flags false.
\<close>

theorem save_load_fresh:
  "(\<not> rearming w \<and> \<not> disabled w \<longrightarrow>
      save w = [(''type'', YamlString (getType (rules w))), (''ammo'', YamlInt (ammo w))]
      \<and> map_of (save w) ''rearming'' = None \<and> map_of (save w) ''disabled'' = None)
   \<and> (map_of reader ''rearming'' = None \<and> map_of reader ''disabled'' = None \<longrightarrow>
        rearming (load reader v) = rearming v \<and> disabled (load reader v) = disabled v)
   \<and> (map_of reader ''rearming'' = None \<and> map_of reader ''disabled'' = None \<longrightarrow>
        rearming (load reader (CraftWeapon_new r a0)) = False
        \<and> disabled (load reader (CraftWeapon_new r a0)) = False)
   \<and> load (save (CraftWeapon_new r 30)) (CraftWeapon_new r a0)
        = \<lparr>rules = r, ammo = 30, rearming = False, disabled = False\<rparr>"
proof -
  have s: "\<not> rearming w \<and> \<not> disabled w \<longrightarrow>
      save w = [(''type'', YamlString (getType (rules w))), (''ammo'', YamlInt (ammo w))]
      \<and> map_of (save w) ''rearming'' = None \<and> map_of (save w) ''disabled'' = None"
    by (simp add: save_plain)
  have k: "map_of reader ''rearming'' = None \<and> map_of reader ''disabled'' = None \<longrightarrow>
        rearming (load reader v) = rearming v \<and> disabled (load reader v) = disabled v"
    by (simp add: load_absent_keeps)
  have l: "map_of reader ''rearming'' = None \<and> map_of reader ''disabled'' = None \<longrightarrow>
        rearming (load reader (CraftWeapon_new r a0)) = False
        \<and> disabled (load reader (CraftWeapon_new r a0)) = False"
    by (simp add: load_absent_keeps) (simp add: CraftWeapon_new_def)
  have "load (save (CraftWeapon_new r 30)) (CraftWeapon_new (rules (CraftWeapon_new r 30)) a0)
          = CraftWeapon_new r 30"
    by (rule load_save)
  then have rt: "load (save (CraftWeapon_new r 30)) (CraftWeapon_new r a0)
        = \<lparr>rules = r, ammo = 30, rearming = False, disabled = False\<rparr>"
    by (simp add: CraftWeapon_new_def)
  from s k l rt show ?thesis by blast
qed

theorem save_load_fresh_witness:
  "\<not> rearming (CraftWeapon_new rules_60 30) \<and> \<not> disabled (CraftWeapon_new rules_60 30)
   \<and> save (CraftWeapon_new rules_60 30)
       = [(''type'', YamlString ''STR_CANNON_UC''), (''ammo'', YamlInt 30)]
   \<and> map_of [(''type'', YamlString ''STR_CANNON_UC''), (''ammo'', YamlInt 30)] ''rearming''
       = None
   \<and> map_of [(''type'', YamlString ''STR_CANNON_UC''), (''ammo'', YamlInt 30)] ''disabled''
       = None
   \<and> rearming (load [(''type'', YamlString ''STR_CANNON_UC''), (''ammo'', YamlInt 30)]
                 (CraftWeapon_new rules_60 0)) = False
   \<and> disabled (load [(''type'', YamlString ''STR_CANNON_UC''), (''ammo'', YamlInt 30)]
                 (CraftWeapon_new rules_60 0)) = False"
proof -
  let ?w = "CraftWeapon_new rules_60 30"
  let ?rec = "[(''type'', YamlString ''STR_CANNON_UC''), (''ammo'', YamlInt 30)]"
  have f: "\<not> rearming ?w \<and> \<not> disabled ?w" by (simp add: CraftWeapon_new_def)
  have t: "getType (rules ?w) = ''STR_CANNON_UC''" "ammo ?w = 30"
    by (simp_all add: CraftWeapon_new_def rules_60_def)
  have saved: "save ?w = ?rec"
    using f save_load_fresh [of ?w ?rec ?w rules_60 0] by (simp add: t)
  have k: "map_of ?rec ''rearming'' = None \<and> map_of ?rec ''disabled'' = None"
    by simp
  have loaded: "rearming (load ?rec (CraftWeapon_new rules_60 0)) = False
                \<and> disabled (load ?rec (CraftWeapon_new rules_60 0)) = False"
    using k save_load_fresh [of ?w ?rec ?w rules_60 0] by blast
  from f saved k loaded show ?thesis by blast
qed

text \<open>
  The clause of the claim on loading fails for a weapon that is not fresh. The record
  above, which has neither flag key, is loaded into a weapon whose two flags are set:
  both stay set.
\<close>

theorem save_load_fresh_counterexample:
  "map_of [(''type'', YamlString ''STR_CANNON_UC''), (''ammo'', YamlInt 30)] ''rearming''
     = None
   \<and> map_of [(''type'', YamlString ''STR_CANNON_UC''), (''ammo'', YamlInt 30)] ''disabled''
       = None
   \<and> rearming (load [(''type'', YamlString ''STR_CANNON_UC''), (''ammo'', YamlInt 30)]
                 (setDisabled True (setRearming True (CraftWeapon_new rules_60 0))))
   \<and> disabled (load [(''type'', YamlString ''STR_CANNON_UC''), (''ammo'', YamlInt 30)]
                 (setDisabled True (setRearming True (CraftWeapon_new rules_60 0))))
   \<and> ammo (load [(''type'', YamlString ''STR_CANNON_UC''), (''ammo'', YamlInt 30)]
              (setDisabled True (setRearming True (CraftWeapon_new rules_60 0)))) = 30"
  by (simp add: load_def tryRead_bool_def tryRead_int_def setDisabled_def setRearming_def
        CraftWeapon_new_def)

subsection \<open>Clips loaded\<close>

lemma floor_of_double_quotient_div:
  "b \<noteq> 0 \<Longrightarrow> \<not> (a = - (2 ^ 31) \<and> b = - 1) \<Longrightarrow>
   floor_of_double_quotient a b = Some (a div b)"
  by (simp add: floor_of_double_quotient_def floor_divide_of_int_eq)

text \<open>
  Claim C9, as amended. For every weapon whose rules have a positive rearm rate: when
  the rules have a clip item \<open>c\<close> whose clip size is positive, \<^verbatim>\<open>getClipsLoaded\<close> returns the
  floor of the ammunition divided by that size, whatever the rearm rate is; when they
  have no clip item, or one whose clip size is not positive, it returns the floor of the
  ammunition divided by the rearm rate. With a clip item of size 15 and 40 rounds it
  returns 2. The function is a \<^verbatim>\<open>const\<close> member, with no weapon in its result.
\<close>

theorem getClipsLoaded_value:
  assumes "0 < getRearmRate (rules w)"
  shows "(getClipItem (rules w) = Some c \<and> 0 < getClipSize c
      \<longrightarrow> getClipsLoaded w = Some \<lfloor>real_of_int (ammo w) / real_of_int (getClipSize c)\<rfloor>
        \<and> getClipsLoaded w = Some (ammo w div getClipSize c))
   \<and> ((getClipItem (rules w) = None
        \<or> (getClipItem (rules w) = Some c \<and> getClipSize c \<le> 0))
      \<longrightarrow> getClipsLoaded w
            = Some \<lfloor>real_of_int (ammo w) / real_of_int (getRearmRate (rules w))\<rfloor>
        \<and> getClipsLoaded w = Some (ammo w div getRearmRate (rules w)))
   \<and> (getClipItem (rules w) = Some c \<and> getClipSize c = 15 \<and> ammo w = 40
      \<longrightarrow> getClipsLoaded w = Some 2)"
proof -
  from assms have rate: "floor_of_double_quotient (ammo w) (getRearmRate (rules w))
                           = Some (ammo w div getRearmRate (rules w))"
    by (intro floor_of_double_quotient_div) simp_all
  have clip: "0 < getClipSize c \<Longrightarrow>
              floor_of_double_quotient (ammo w) (getClipSize c)
                = Some (ammo w div getClipSize c)"
    by (intro floor_of_double_quotient_div) simp_all
  have one: "getClipItem (rules w) = Some c \<and> 0 < getClipSize c
      \<longrightarrow> getClipsLoaded w = Some \<lfloor>real_of_int (ammo w) / real_of_int (getClipSize c)\<rfloor>
        \<and> getClipsLoaded w = Some (ammo w div getClipSize c)"
    by (simp add: getClipsLoaded_def Let_def clip floor_divide_of_int_eq)
  have two: "(getClipItem (rules w) = None
        \<or> (getClipItem (rules w) = Some c \<and> getClipSize c \<le> 0))
      \<longrightarrow> getClipsLoaded w
            = Some \<lfloor>real_of_int (ammo w) / real_of_int (getRearmRate (rules w))\<rfloor>
        \<and> getClipsLoaded w = Some (ammo w div getRearmRate (rules w))"
    by (auto simp add: getClipsLoaded_def Let_def rate floor_divide_of_int_eq)
  have three: "getClipItem (rules w) = Some c \<and> getClipSize c = 15 \<and> ammo w = 40
      \<longrightarrow> getClipsLoaded w = Some 2"
    using one by auto
  from one two three show ?thesis by blast
qed

text \<open>
  40 rounds in a weapon whose rules have a clip item of size 15 and a rearm rate of 20,
  and 50 rounds in one whose rules have no clip item and a rearm rate of 20.
\<close>

theorem getClipsLoaded_value_witness:
  "(0 < getRearmRate (rules (CraftWeapon_new rules_55 40))
      \<and> getClipItem (rules (CraftWeapon_new rules_55 40)) = Some \<lparr>getClipSize = 15\<rparr>
      \<and> 0 < getClipSize \<lparr>getClipSize = 15\<rparr>
      \<and> getClipSize \<lparr>getClipSize = 15\<rparr> = 15
      \<and> ammo (CraftWeapon_new rules_55 40) = 40
      \<and> getClipsLoaded (CraftWeapon_new rules_55 40) = Some 2)
   \<and> (0 < getRearmRate (rules (CraftWeapon_new rules_60 50))
      \<and> getClipItem (rules (CraftWeapon_new rules_60 50)) = None
      \<and> getClipsLoaded (CraftWeapon_new rules_60 50) = Some 2)"
proof -
  let ?w = "CraftWeapon_new rules_55 40"
  let ?v = "CraftWeapon_new rules_60 50"
  let ?c = "\<lparr>getClipSize = 15\<rparr>"
  have w: "getClipItem (rules ?w) = Some ?c" "ammo ?w = 40"
    by (simp_all add: CraftWeapon_new_def rules_55_def)
  have hw: "0 < getRearmRate (rules ?w)" by (simp add: CraftWeapon_new_def rules_55_def)
  have c: "0 < getClipSize ?c" "getClipSize ?c = 15" by simp_all
  have v: "getClipItem (rules ?v) = None" "getRearmRate (rules ?v) = 20" "ammo ?v = 50"
    by (simp_all add: CraftWeapon_new_def rules_60_def)
  have hv: "0 < getRearmRate (rules ?v)" by (simp add: v)
  have one: "getClipsLoaded ?w = Some 2"
    using w c getClipsLoaded_value [OF hw, of ?c] by blast
  have "getClipsLoaded ?v = Some (ammo ?v div getRearmRate (rules ?v))"
    using v(1) getClipsLoaded_value [OF hv, of ?c] by blast
  then have two: "getClipsLoaded ?v = Some 2" by (simp add: v)
  from w hw c v(1) hv one two show ?thesis by simp
qed

text \<open>
  For every state the claim fails. With a rearm rate of 0 and no clip item the call has
  no defined result. With the least \<^verbatim>\<open>int\<close> as ammunition and a rearm rate of \<open>-1\<close> the
  floor of the quotient is \<open>2^31\<close>, which no \<^verbatim>\<open>int\<close> holds, and the call has no defined
  result either.
\<close>

theorem getClipsLoaded_value_counterexample:
  "getClipItem (rules (CraftWeapon_new (rules_60\<lparr>getRearmRate := 0\<rparr>) 30)) = None
   \<and> getClipsLoaded (CraftWeapon_new (rules_60\<lparr>getRearmRate := 0\<rparr>) 30) = None
   \<and> getClipItem (rules (CraftWeapon_new (rules_60\<lparr>getRearmRate := - 1\<rparr>) (- 2147483648)))
       = None
   \<and> \<lfloor>real_of_int (ammo (CraftWeapon_new (rules_60\<lparr>getRearmRate := - 1\<rparr>) (- 2147483648)))
       / real_of_int (getRearmRate
           (rules (CraftWeapon_new (rules_60\<lparr>getRearmRate := - 1\<rparr>) (- 2147483648))))\<rfloor>
       = 2147483648
   \<and> \<not> int_range 2147483648
   \<and> getClipsLoaded (CraftWeapon_new (rules_60\<lparr>getRearmRate := - 1\<rparr>) (- 2147483648))
       = None"
  by (simp add: getClipsLoaded_def Let_def floor_of_double_quotient_def int_range_def
        CraftWeapon_new_def rules_60_def)

text \<open>
  Claim C10. The source divides by the rearm rate before it looks at the clip item, and
  nothing tests the rate. With a rearm rate of 0 and no clip item of positive clip size
  the value returned is that first quotient, which has no defined conversion to
  \<^verbatim>\<open>int\<close>. For the rearm rates a configuration may have, those that are not negative,
  and no clip item of positive clip size, the result is defined exactly when the rate is
  positive.
\<close>

theorem getClipsLoaded_zero_rate:
  "(getRearmRate (rules w) = 0
      \<and> (getClipItem (rules w) = None
          \<or> (getClipItem (rules w) = Some c \<and> getClipSize c \<le> 0))
     \<longrightarrow> getClipsLoaded w = None)
   \<and> (0 \<le> getRearmRate (rules w)
      \<and> (getClipItem (rules w) = None
          \<or> (getClipItem (rules w) = Some c \<and> getClipSize c \<le> 0))
     \<longrightarrow> (getClipsLoaded w \<noteq> None) = (0 < getRearmRate (rules w)))"
  by (auto simp add: getClipsLoaded_def Let_def floor_of_double_quotient_def)

text \<open>The rules of the first scenario with the rearm rate set to 0, and as they are.\<close>

theorem getClipsLoaded_zero_rate_witness:
  "(getRearmRate (rules (CraftWeapon_new (rules_60\<lparr>getRearmRate := 0\<rparr>) 40)) = 0
      \<and> getClipItem (rules (CraftWeapon_new (rules_60\<lparr>getRearmRate := 0\<rparr>) 40)) = None
      \<and> getClipsLoaded (CraftWeapon_new (rules_60\<lparr>getRearmRate := 0\<rparr>) 40) = None)
   \<and> (0 \<le> getRearmRate (rules (CraftWeapon_new rules_60 40))
      \<and> getClipItem (rules (CraftWeapon_new rules_60 40)) = None
      \<and> 0 < getRearmRate (rules (CraftWeapon_new rules_60 40))
      \<and> getClipsLoaded (CraftWeapon_new rules_60 40) \<noteq> None)"
proof -
  let ?w = "CraftWeapon_new (rules_60\<lparr>getRearmRate := 0\<rparr>) 40"
  let ?v = "CraftWeapon_new rules_60 40"
  have w: "getRearmRate (rules ?w) = 0" "getClipItem (rules ?w) = None"
    by (simp_all add: CraftWeapon_new_def rules_60_def)
  have v: "getRearmRate (rules ?v) = 20" "getClipItem (rules ?v) = None"
    by (simp_all add: CraftWeapon_new_def rules_60_def)
  have one: "getClipsLoaded ?w = None"
    using w getClipsLoaded_zero_rate [of ?w "\<lparr>getClipSize = 0\<rparr>"] by blast
  have two: "getClipsLoaded ?v \<noteq> None"
    using getClipsLoaded_zero_rate [of ?v "\<lparr>getClipSize = 0\<rparr>"] by (simp add: v)
  from w v one two show ?thesis by simp
qed

subsection \<open>The conversions of \<^verbatim>\<open>getClipsLoaded\<close>\<close>

text \<open>
  The quotient of two values of \<^verbatim>\<open>int\<close>, the divisor positive, lies between the dividend
  and 0; so the floor of a quotient of two values of \<^verbatim>\<open>int\<close> is such a value except for
  the least one divided by \<open>-1\<close>, and \<open>floor_of_double_quotient\<close> is \<open>None\<close> exactly where
  the divisor is 0 or the floor is no value of \<^verbatim>\<open>int\<close>.
\<close>

lemma div_between:
  assumes "0 < (b::int)"
  shows "min a 0 \<le> a div b \<and> a div b \<le> max a 0"
proof (cases "0 \<le> a")
  case True
  have "a div b \<le> a div 1" using True assms by (intro zdiv_mono2) simp_all
  moreover have "0 \<le> a div b" using True assms by (simp add: pos_imp_zdiv_nonneg_iff)
  ultimately show ?thesis using True by simp
next
  case False
  then have neg: "a < 0" by simp
  have "a div 1 \<le> a div b" using neg assms by (intro zdiv_mono2_neg) simp_all
  moreover have "a div b \<le> 0" using neg assms by (intro div_nonpos_pos_le0) simp_all
  ultimately show ?thesis using neg by simp
qed

lemma div_int_range:
  assumes "int_range a" and "int_range b" and "b \<noteq> 0"
  shows "int_range (a div b) \<longleftrightarrow> \<not> (a = - (2 ^ 31) \<and> b = - 1)"
proof (cases "a = - (2 ^ 31) \<and> b = - 1")
  case True
  then show ?thesis by (simp add: int_range_def)
next
  case False
  have "int_range (a div b)"
  proof (cases "0 < b")
    case True
    then have "min a 0 \<le> a div b \<and> a div b \<le> max a 0" by (rule div_between)
    with assms(1) show ?thesis by (auto simp add: int_range_def)
  next
    case nb: False
    with assms(3) have pos: "0 < - b" by simp
    have flip: "a div b = (- a) div (- b)" by simp
    from pos have between: "min (- a) 0 \<le> (- a) div (- b) \<and> (- a) div (- b) \<le> max (- a) 0"
      by (rule div_between)
    show ?thesis
    proof (cases "a = - (2 ^ 31)")
      case True
      with False have "b \<noteq> - 1" by simp
      with pos have two: "2 \<le> - b" by simp
      have "(- a) div (- b) \<le> (- a) div 2"
        using True two by (intro zdiv_mono2) simp_all
      also have "\<dots> = 2 ^ 30" using True by simp
      finally have "(- a) div (- b) \<le> 2 ^ 30" .
      with between True show ?thesis
        unfolding flip by (simp add: int_range_def)
    next
      case False
      with assms(1) have "- (2 ^ 31) < a" by (simp add: int_range_def)
      with between assms(1) show ?thesis
        unfolding flip by (auto simp add: int_range_def)
    qed
  qed
  with False show ?thesis by simp
qed

lemma floor_of_double_quotient_range:
  assumes "int_range a" and "int_range b"
  shows "floor_of_double_quotient a b =
           (if b \<noteq> 0 \<and> int_range (a div b) then Some (a div b) else None)"
proof (cases "b = 0")
  case True
  then show ?thesis by (simp add: floor_of_double_quotient_def)
next
  case False
  with assms have "int_range (a div b) \<longleftrightarrow> \<not> (a = - (2 ^ 31) \<and> b = - 1)"
    by (rule div_int_range)
  with False show ?thesis
    by (simp add: floor_of_double_quotient_def floor_divide_of_int_eq)
qed

text \<open>
  \<^verbatim>\<open>getClipsLoaded\<close> divides in \<^verbatim>\<open>double\<close>. Let \<open>rnd\<close> be the rounding of a real number to
  a \<^verbatim>\<open>double\<close>: it moves a number by no more than that number over \<open>2^53\<close>, and leaves
  the integers below \<open>2^53\<close> where they are. Then for an integer \<open>a\<close> below \<open>2^53\<close> in
  absolute value, which every \<^verbatim>\<open>int\<close> is, and a divisor other than 0, the floor of the
  rounded quotient is the floor of the exact one.
\<close>

lemma floor_of_rounded_quotient_pos:
  fixes rnd :: "real \<Rightarrow> real" and a b :: int
  assumes near: "\<And>x. \<bar>rnd x - x\<bar> \<le> \<bar>x\<bar> / 2 ^ 53"
    and exact: "\<And>k::int. \<bar>k\<bar> < 2 ^ 53 \<Longrightarrow> rnd (of_int k) = of_int k"
    and a: "\<bar>a\<bar> < 2 ^ 53" and b: "0 < b"
  shows "\<lfloor>rnd (real_of_int a / real_of_int b)\<rfloor> = a div b"
proof (cases "a mod b = 0")
  case True
  then have "b dvd a" by (simp add: dvd_eq_mod_eq_0)
  then have q: "real_of_int a / real_of_int b = of_int (a div b)"
    by (simp add: real_of_int_div)
  have "\<bar>a div b\<bar> \<le> \<bar>a\<bar>"
  proof -
    from \<open>b dvd a\<close> have "a = a div b * b" by simp
    then have "\<bar>a\<bar> = \<bar>a div b\<bar> * \<bar>b\<bar>" by (metis abs_mult)
    moreover have "\<bar>a div b\<bar> * 1 \<le> \<bar>a div b\<bar> * \<bar>b\<bar>"
      using b by (intro mult_left_mono) simp_all
    ultimately show ?thesis by simp
  qed
  with a have "\<bar>a div b\<bar> < 2 ^ 53" by simp
  then have "rnd (of_int (a div b)) = of_int (a div b)" by (rule exact)
  then show ?thesis by (simp add: q)
next
  case False
  let ?q = "real_of_int a / real_of_int b"
  let ?n = "a div b"
  let ?r = "a mod b"
  have B: "0 < real_of_int b" using b by simp
  have "0 \<le> ?r" using b by simp
  with False have r1: "1 \<le> ?r" by simp
  have r2: "?r \<le> b - 1" using b pos_mod_bound [of b a] by simp
  have "real_of_int (?n * b + ?r) = real_of_int ?n * real_of_int b + real_of_int ?r"
    by (simp only: of_int_add of_int_mult)
  moreover have "?n * b + ?r = a" by simp
  ultimately have A: "real_of_int a = real_of_int ?n * real_of_int b + real_of_int ?r"
    by simp
  have q: "?q = real_of_int ?n + real_of_int ?r / real_of_int b"
    using B by (simp add: A add_divide_distrib)
  have lo: "1 / real_of_int b \<le> real_of_int ?r / real_of_int b"
    using B r1 by (simp add: divide_right_mono)
  have "real_of_int ?r \<le> real_of_int b - 1" using r2 by linarith
  then have "real_of_int ?r / real_of_int b \<le> (real_of_int b - 1) / real_of_int b"
    using B by (simp add: divide_right_mono)
  also have "\<dots> = 1 - 1 / real_of_int b" using B by (simp add: diff_divide_distrib)
  finally have hi: "real_of_int ?r / real_of_int b \<le> 1 - 1 / real_of_int b" .
  have "real_of_int \<bar>a\<bar> < real_of_int (2 ^ 53)"
    using a by (simp only: of_int_less_iff)
  then have "\<bar>real_of_int a\<bar> < 2 ^ 53" by simp
  then have lt: "\<bar>real_of_int a\<bar> / real_of_int b < 2 ^ 53 / real_of_int b"
    using B by (rule divide_strict_right_mono)
  have absB: "\<bar>real_of_int b\<bar> = real_of_int b" using B by simp
  have qabs: "\<bar>?q\<bar> = \<bar>real_of_int a\<bar> / real_of_int b"
    by (simp only: abs_divide absB)
  have "\<bar>?q\<bar> < 2 ^ 53 / real_of_int b"
    unfolding qabs by (rule lt)
  then have "\<bar>?q\<bar> / 2 ^ 53 < 2 ^ 53 / real_of_int b / 2 ^ 53"
    by (rule divide_strict_right_mono) simp
  also have "\<dots> = 1 / real_of_int b" by simp
  finally have e: "\<bar>?q\<bar> / 2 ^ 53 < 1 / real_of_int b" .
  have "\<bar>rnd ?q - ?q\<bar> \<le> \<bar>?q\<bar> / 2 ^ 53" by (rule near)
  with e have d: "\<bar>rnd ?q - ?q\<bar> < 1 / real_of_int b" by linarith
  have below: "real_of_int ?n \<le> rnd ?q" using d lo q by linarith
  have above: "rnd ?q < real_of_int ?n + 1" using d hi q by linarith
  from below above show ?thesis by (rule floor_unique)
qed

lemma floor_of_rounded_quotient:
  fixes rnd :: "real \<Rightarrow> real" and a b :: int
  assumes near: "\<And>x. \<bar>rnd x - x\<bar> \<le> \<bar>x\<bar> / 2 ^ 53"
    and exact: "\<And>k::int. \<bar>k\<bar> < 2 ^ 53 \<Longrightarrow> rnd (of_int k) = of_int k"
    and a: "\<bar>a\<bar> < 2 ^ 53" and b: "b \<noteq> 0"
  shows "\<lfloor>rnd (real_of_int a / real_of_int b)\<rfloor> = a div b"
proof (cases "0 < b")
  case True
  with near exact a show ?thesis by (rule floor_of_rounded_quotient_pos)
next
  case False
  with b have nb: "0 < - b" by simp
  have na: "\<bar>- a\<bar> < 2 ^ 53" using a by simp
  have "\<lfloor>rnd (real_of_int (- a) / real_of_int (- b))\<rfloor> = (- a) div (- b)"
    using near exact na nb by (rule floor_of_rounded_quotient_pos)
  then show ?thesis by simp
qed

lemma floor_of_double_quotient_rounded:
  fixes rnd :: "real \<Rightarrow> real" and a b :: int
  assumes "\<And>x. \<bar>rnd x - x\<bar> \<le> \<bar>x\<bar> / 2 ^ 53"
    and "\<And>k::int. \<bar>k\<bar> < 2 ^ 53 \<Longrightarrow> rnd (of_int k) = of_int k"
    and "int_range a" and "b \<noteq> 0" and "\<not> (a = - (2 ^ 31) \<and> b = - 1)"
  shows "floor_of_double_quotient a b = Some \<lfloor>rnd (real_of_int a / real_of_int b)\<rfloor>"
proof -
  from assms(3) have "\<bar>a\<bar> < 2 ^ 53" unfolding int_range_def by simp arith
  with assms(1,2) have "\<lfloor>rnd (real_of_int a / real_of_int b)\<rfloor> = a div b"
    using assms(4) by (rule floor_of_rounded_quotient)
  with assms(4,5) show ?thesis by (simp add: floor_of_double_quotient_div)
qed

end
